theory Spec2Isabelle
  imports Complex_Main "HOL-Library.Word"
begin

section \<open>Numeric values and Python exceptions\<close>

text \<open>
  The program (\<^verbatim>\<open>Pm.py\<close>) computes with numpy and pandas numbers. A value is a finite
  number or one of the special values that numpy produces instead of raising (\<^verbatim>\<open>nan\<close>,
  \<^verbatim>\<open>inf\<close>, \<^verbatim>\<open>-inf\<close>). Arithmetic on finite values is exact arithmetic on
  \<^typ>\<open>real\<close>, with one exception: the mean of a pandas Series (lines 98 and 106) is
  computed as the library does, in IEEE double arithmetic, because the order between
  \<^verbatim>\<open>cvar_95\<close> and \<^verbatim>\<open>var_95\<close> turns on its rounding.
\<close>

datatype npfloat = Fin real | PInf | NInf | NaN

datatype py_error = ZeroDivisionError | IndexError | ValueError | Exception string

text \<open>
  Division of two numpy scalars: no exception on a zero divisor, but \<^verbatim>\<open>inf\<close>,
  \<^verbatim>\<open>-inf\<close> or \<^verbatim>\<open>nan\<close> (with a warning that the program ignores).
\<close>

definition np_div :: "real \<Rightarrow> real \<Rightarrow> npfloat" where
  "np_div a b =
     (if b \<noteq> 0 then Fin (a / b)
      else if 0 < a then PInf
      else if a < 0 then NInf
      else NaN)"

text \<open>Arithmetic mean of a non-empty sequence.\<close>

definition avg :: "real list \<Rightarrow> real" where
  "avg xs = sum_list xs / real (length xs)"

text \<open>\<^verbatim>\<open>.mean()\<close> of a numpy array of numbers, in exact arithmetic: \<^verbatim>\<open>nan\<close> when nothing
  is selected.\<close>

definition np_mean :: "real list \<Rightarrow> npfloat" where
  "np_mean xs = (if xs = [] then NaN else Fin (avg xs))"

text \<open>
  \<^verbatim>\<open>np.std\<close> of a row of numbers: numpy hands \<^verbatim>\<open>ddof=0\<close> to the pandas method, so this
  is the population standard deviation.
\<close>

definition np_std :: "real list \<Rightarrow> real" where
  "np_std xs = sqrt (avg (map (\<lambda>x. (x - avg xs)\<^sup>2) xs))"

text \<open>
  \<^verbatim>\<open>np.percentile(a, q)\<close> with numpy's default linear interpolation, on a non-empty
  array of numbers: the virtual index \<open>q/100 * (n - 1)\<close> into the sorted data,
  interpolated between its two neighbours. The program only calls it on non-empty data.
\<close>

definition percentile :: "real list \<Rightarrow> real \<Rightarrow> real" where
  "percentile a q =
     (let s = sort a;
          n = length s;
          virtual_index = q / 100 * real (n - 1);
          previous_index = nat \<lfloor>virtual_index\<rfloor>;
          next_index = min (previous_index + 1) (n - 1);
          gamma = virtual_index - real previous_index
      in s ! previous_index + (s ! next_index - s ! previous_index) * gamma)"

section \<open>Arithmetic with the special values\<close>

text \<open>
  Where a \<^verbatim>\<open>nan\<close> or an infinity can reach an operation, the operation is modelled on
  \<^typ>\<open>npfloat\<close>, with the IEEE rules for the special values (signed zeros are not
  distinguished).
\<close>

fun np_neg :: "npfloat \<Rightarrow> npfloat" where
  "np_neg (Fin a) = Fin (- a)"
| "np_neg PInf = NInf"
| "np_neg NInf = PInf"
| "np_neg NaN = NaN"

fun np_add :: "npfloat \<Rightarrow> npfloat \<Rightarrow> npfloat" where
  "np_add (Fin a) (Fin b) = Fin (a + b)"
| "np_add NaN _ = NaN"
| "np_add _ NaN = NaN"
| "np_add PInf NInf = NaN"
| "np_add NInf PInf = NaN"
| "np_add PInf _ = PInf"
| "np_add _ PInf = PInf"
| "np_add NInf _ = NInf"
| "np_add _ NInf = NInf"

fun np_mul :: "npfloat \<Rightarrow> npfloat \<Rightarrow> npfloat" where
  "np_mul (Fin a) (Fin b) = Fin (a * b)"
| "np_mul NaN _ = NaN"
| "np_mul _ NaN = NaN"
| "np_mul (Fin a) PInf = (if 0 < a then PInf else if a < 0 then NInf else NaN)"
| "np_mul (Fin a) NInf = (if 0 < a then NInf else if a < 0 then PInf else NaN)"
| "np_mul PInf (Fin b) = (if 0 < b then PInf else if b < 0 then NInf else NaN)"
| "np_mul NInf (Fin b) = (if 0 < b then NInf else if b < 0 then PInf else NaN)"
| "np_mul PInf PInf = PInf"
| "np_mul PInf NInf = NInf"
| "np_mul NInf PInf = NInf"
| "np_mul NInf NInf = PInf"

fun np_divide :: "npfloat \<Rightarrow> npfloat \<Rightarrow> npfloat" where
  "np_divide (Fin a) (Fin b) = np_div a b"
| "np_divide NaN _ = NaN"
| "np_divide _ NaN = NaN"
| "np_divide (Fin a) _ = Fin 0"
| "np_divide PInf (Fin b) = (if b < 0 then NInf else PInf)"
| "np_divide NInf (Fin b) = (if b < 0 then PInf else NInf)"
| "np_divide _ _ = NaN"

definition np_sqrt :: "real \<Rightarrow> npfloat" where
  "np_sqrt a = (if a < 0 then NaN else Fin (sqrt a))"

definition np_sum :: "npfloat list \<Rightarrow> npfloat" where
  "np_sum xs = foldl np_add (Fin 0) xs"

fun is_nan :: "npfloat \<Rightarrow> bool" where
  "is_nan NaN = True"
| "is_nan _ = False"

text \<open>Comparison \<^verbatim>\<open><=\<close>: false whenever an operand is \<^verbatim>\<open>nan\<close>.\<close>

fun np_le :: "npfloat \<Rightarrow> npfloat \<Rightarrow> bool" where
  "np_le (Fin a) (Fin b) = (a \<le> b)"
| "np_le NaN _ = False"
| "np_le _ NaN = False"
| "np_le NInf _ = True"
| "np_le _ PInf = True"
| "np_le _ _ = False"

fun sqrt_np :: "npfloat \<Rightarrow> npfloat" where
  "sqrt_np (Fin a) = np_sqrt a"
| "sqrt_np PInf = PInf"
| "sqrt_np _ = NaN"

section \<open>Double arithmetic and the mean of a series\<close>

text \<open>
  Rounding of a real number to the nearest IEEE double (binary64), ties to the even
  significand: the exponent of the number (not below that of the subnormal numbers) fixes
  the spacing of the doubles around it, and a result of magnitude \<open>2^1024\<close> or more is an
  infinity. Signed zeros are not distinguished.
\<close>

definition binade :: "real \<Rightarrow> int" where
  "binade x = max \<lfloor>log 2 \<bar>x\<bar>\<rfloor> (- 1022)"

definition round_half_even :: "real \<Rightarrow> int" where
  "round_half_even y =
     (let n = \<lfloor>y\<rfloor>;
          frac = y - of_int n
      in if frac < 1 / 2 then n
         else if 1 / 2 < frac then n + 1
         else if even n then n
         else n + 1)"

definition double :: "real \<Rightarrow> npfloat" where
  "double x =
     (if x = 0 then Fin 0
      else
        let ulp = 2 powi (binade x - 52);
            y = of_int (round_half_even (x / ulp)) * ulp
        in if 2 ^ 1024 \<le> \<bar>y\<bar> then (if 0 < x then PInf else NInf) else Fin y)"

text \<open>Addition of two doubles, and division of a double by a positive count.\<close>

fun d_add :: "npfloat \<Rightarrow> npfloat \<Rightarrow> npfloat" where
  "d_add (Fin a) (Fin b) = double (a + b)"
| "d_add NaN v = np_add NaN v"
| "d_add PInf v = np_add PInf v"
| "d_add NInf v = np_add NInf v"
| "d_add (Fin a) v = np_add (Fin a) v"

fun d_div :: "npfloat \<Rightarrow> real \<Rightarrow> npfloat" where
  "d_div (Fin s) n = double (s / n)"
| "d_div v n = v"

text \<open>
  The sum of a numpy array of doubles (\<^verbatim>\<open>ndarray.sum\<close>): fewer than eight values are
  added one after the other; up to 128 values are added into eight running sums, which
  are combined in pairs before the remaining values are added; a longer array is split in
  two parts, the first of a length that is a multiple of eight.
\<close>

function pairwise_sum :: "npfloat list \<Rightarrow> npfloat" where
  "pairwise_sum a =
     (let n = length a
      in if n < 8 then foldl d_add (Fin 0) a
         else if n \<le> 128 then
           (let m = n - n mod 8;
                r = foldl (\<lambda>r i. map (\<lambda>j. d_add (r ! j) (a ! (i + j))) [0..<8])
                      (take 8 a) (map (\<lambda>k. 8 * k) [1..<m div 8]);
                res = d_add (d_add (d_add (r ! 0) (r ! 1)) (d_add (r ! 2) (r ! 3)))
                            (d_add (d_add (r ! 4) (r ! 5)) (d_add (r ! 6) (r ! 7)))
            in foldl d_add res (drop m a))
         else
           (let n2 = n div 2 - (n div 2) mod 8
            in d_add (pairwise_sum (take n2 a)) (pairwise_sum (drop n2 a))))"
  by pat_completeness auto
termination
  by (relation "measure length") auto

declare pairwise_sum.simps [simp del]

text \<open>
  \<^verbatim>\<open>Series.mean()\<close> (pandas, \<^verbatim>\<open>skipna=True\<close>, without the optional bottleneck package,
  which adds the values one after the other and so agrees on fewer than eight values):
  every \<^verbatim>\<open>nan\<close> counts as 0 in the sum and is left out of the count; the mean is the
  sum divided by the count, and \<^verbatim>\<open>nan\<close> when the count is 0.
\<close>

definition series_mean :: "npfloat list \<Rightarrow> npfloat" where
  "series_mean vs =
     (let count = length (filter (\<lambda>v. \<not> is_nan v) vs);
          the_sum = pairwise_sum (map (\<lambda>v. if is_nan v then Fin 0 else v) vs)
      in if 0 < count then d_div the_sum (real count) else NaN)"

text \<open>
  \<^verbatim>\<open>Series.std(ddof=0)\<close>, which is what \<^verbatim>\<open>np.std\<close> calls on a Series: the values that
  are not \<^verbatim>\<open>nan\<close>, their mean (the sum divided by the count, as above), the mean of the
  squared deviations from it, and its root.
\<close>

definition series_std :: "npfloat list \<Rightarrow> npfloat" where
  "series_std vs =
     (let present = filter (\<lambda>v. \<not> is_nan v) vs;
          count = Fin (real (length present))
      in if present = [] then NaN
         else
           let mean = series_mean vs;
               sqr = map (\<lambda>v. np_mul (np_add mean (np_neg v)) (np_add mean (np_neg v))) present
           in sqrt_np (np_divide (np_sum sqr) count))"

text \<open>\<^verbatim>\<open>Series.prod()\<close>: the product of the values that are not \<^verbatim>\<open>nan\<close>.\<close>

definition series_prod :: "npfloat list \<Rightarrow> npfloat" where
  "series_prod vs = foldl np_mul (Fin 1) (filter (\<lambda>v. \<not> is_nan v) vs)"

text \<open>
  \<^verbatim>\<open>np.percentile\<close> on the values of a Series: \<^verbatim>\<open>nan\<close> as soon as one value is
  \<^verbatim>\<open>nan\<close>; otherwise the interpolation between the two neighbours of the virtual index
  in the sorted values, taken from the lower neighbour when the weight is below one half
  and from the upper neighbour otherwise. The program calls it on series of two or more
  values.
\<close>

definition np_sort :: "npfloat list \<Rightarrow> npfloat list" where
  "np_sort a =
     filter (\<lambda>v. v = NInf) a @ map Fin (sort [x. Fin x \<leftarrow> a]) @ filter (\<lambda>v. v = PInf) a"

definition np_percentile :: "npfloat list \<Rightarrow> real \<Rightarrow> npfloat" where
  "np_percentile a q =
     (if list_ex is_nan a then NaN
      else
        let s = np_sort a;
            n = length s;
            virtual_index = q / 100 * real (n - 1);
            previous_index = nat \<lfloor>virtual_index\<rfloor>;
            next_index = min (previous_index + 1) (n - 1);
            gamma = virtual_index - real previous_index;
            lower = s ! previous_index;
            upper = s ! next_index;
            diff = np_add upper (np_neg lower)
        in if gamma < 1 / 2 then np_add lower (np_mul diff (Fin gamma))
           else np_add upper (np_neg (np_mul diff (Fin (1 - gamma)))))"

section \<open>Portfolio metrics\<close>

text \<open>The dictionary returned by \<^verbatim>\<open>calculate_portfolio_metrics\<close>, one field per key
  (\<open>return_val\<close> is the key \<^verbatim>\<open>'return'\<close>).\<close>

record metrics =
  return_val :: npfloat
  volatility :: npfloat
  sharpe_ratio :: npfloat
  skewness :: npfloat
  kurtosis :: npfloat
  shapiro_p_value :: npfloat
  cumulative_return :: npfloat
  var_95 :: npfloat
  cvar_95 :: npfloat

text \<open>
  The three functions of \<^verbatim>\<open>scipy.stats\<close> that the program calls are library code and
  are taken as parameters. \<^verbatim>\<open>stats.shapiro\<close> returns the pair (statistic, p-value) and,
  depending on the library version, raises on fewer than three observations.
\<close>

record scipy_stats =
  stats_skew :: "npfloat list \<Rightarrow> npfloat"
  stats_kurtosis :: "npfloat list \<Rightarrow> npfloat"
  stats_shapiro :: "npfloat list \<Rightarrow> py_error + npfloat \<times> npfloat"

text \<open>The selection \<^verbatim>\<open>returns[returns <= var_95]\<close> of line 106.\<close>

definition tail_returns :: "npfloat list \<Rightarrow> npfloat list" where
  "tail_returns returns = filter (\<lambda>r. np_le r (np_percentile returns 5)) returns"

text \<open>
  \<^verbatim>\<open>calculate_portfolio_metrics\<close>. The argument is the series of portfolio returns as
  lines 284-291 hand it on, so an entry can be \<^verbatim>\<open>nan\<close> or infinite.
\<close>

definition calculate_portfolio_metrics ::
  "scipy_stats \<Rightarrow> npfloat list \<Rightarrow> py_error + metrics" where
  "calculate_portfolio_metrics stats returns =
     (if length returns < 2 then
        Inr \<lparr>return_val = NaN, volatility = NaN, sharpe_ratio = NaN, skewness = NaN,
             kurtosis = NaN, shapiro_p_value = NaN, cumulative_return = NaN,
             var_95 = NaN, cvar_95 = NaN\<rparr>
      else
        let p_return = np_mul (series_mean returns) (Fin 252);
            p_volatility = np_mul (series_std returns) (Fin (sqrt 252));
            sharpe = np_divide p_return p_volatility;
            skew = stats_skew stats returns;
            kurt = stats_kurtosis stats returns
        in case stats_shapiro stats returns of
             Inl e \<Rightarrow> Inl e
           | Inr (w, p_value) \<Rightarrow>
               Inr \<lparr>return_val = p_return, volatility = p_volatility,
                    sharpe_ratio = sharpe, skewness = skew, kurtosis = kurt,
                    shapiro_p_value = p_value,
                    cumulative_return =
                      np_add (series_prod (map (\<lambda>r. np_add (Fin 1) r) returns)) (Fin (- 1)),
                    var_95 = np_percentile returns 5,
                    cvar_95 = series_mean (tail_returns returns)\<rparr>)"


text \<open>A stand-in for the statistics library in the examples: no skewness or kurtosis
  (\<^verbatim>\<open>nan\<close>), Shapiro-Wilk statistic and p-value 1.\<close>

definition flat_stats :: scipy_stats where
  "flat_stats = \<lparr>stats_skew = (\<lambda>_. NaN), stats_kurtosis = (\<lambda>_. NaN),
                 stats_shapiro = (\<lambda>_. Inr (Fin 1, Fin 1))\<rparr>"

text \<open>The double nearest to 0.1, and the double next above it.\<close>

definition tenth :: real where
  "tenth = 3602879701896397 / 36028797018963968"



section \<open>Holdings, returns table and aggregation\<close>

text \<open>
  The portfolio is a Python dictionary from ticker to quantity; its insertion order fixes
  the order of the tickers, so it is an association list. The quantities are whole
  numbers (the input widget has step 1), which \<^verbatim>\<open>np.array\<close> stores as 64-bit integers.
  The table of daily returns (\<^verbatim>\<open>data.pct_change().dropna()\<close>) has one column per ticker
  and one row per day; after \<^verbatim>\<open>dropna\<close> every entry is a number and every row has one
  entry per column.
\<close>

type_synonym holdings = "(string \<times> 64 word) list"

record dataframe =
  columns :: "string list"
  rows :: "real list list"

text \<open>A pandas object of results: still a table, or a single series.\<close>

datatype pandas_obj = Frame "npfloat list list" | Series "npfloat list"

text \<open>
  Lines 284-285: the quantities in ticker order, divided by their sum. The sum of the
  64-bit integers wraps around; the division is the division of floating-point numbers
  (no exception on a sum of 0), taken exact here.
\<close>

definition normalized_weights :: "holdings \<Rightarrow> npfloat list" where
  "normalized_weights portfolio =
     (let weights = map snd portfolio;
          total = sum_list weights
      in map (\<lambda>w. np_div (real_of_int (sint w)) (real_of_int (sint total))) weights)"

text \<open>
  Lines 288-291: with a single weight the table is multiplied by that scalar (and stays a
  table); otherwise \<^verbatim>\<open>returns.dot(weights)\<close>, which raises when the shapes do not match.
\<close>

definition portfolio_returns :: "dataframe \<Rightarrow> npfloat list \<Rightarrow> py_error + pandas_obj" where
  "portfolio_returns returns weights =
     (if length weights = 1 then
        Inr (Frame (map (map (\<lambda>r. np_mul (Fin r) (weights ! 0))) (rows returns)))
      else if length weights \<noteq> length (columns returns) then Inl ValueError
      else
        Inr (Series (map (\<lambda>row. np_sum (map2 (\<lambda>r w. np_mul (Fin r) w) row weights))
                         (rows returns))))"

section \<open>Optimisation\<close>

text \<open>\<^verbatim>\<open>returns.mean()\<close>: the mean of every column (\<^verbatim>\<open>nan\<close> for a table without rows).\<close>

definition column_means :: "dataframe \<Rightarrow> npfloat list" where
  "column_means returns =
     map (\<lambda>j. np_mean (map (\<lambda>row. row ! j) (rows returns))) [0..<length (columns returns)]"

text \<open>
  The objective functions. The solver calls them with vectors of the length of its
  initial guess, which is the number of columns. \<^verbatim>\<open>np.sum\<close> of the pandas Series
  \<^verbatim>\<open>returns.mean() * weights\<close> leaves out every \<^verbatim>\<open>nan\<close>.
\<close>

definition portfolio_return :: "real list \<Rightarrow> dataframe \<Rightarrow> npfloat" where
  "portfolio_return weights returns =
     np_mul (np_sum (filter (\<lambda>v. \<not> is_nan v)
                       (map2 (\<lambda>m w. np_mul m (Fin w)) (column_means returns) weights)))
            (Fin 252)"

definition dot :: "real list \<Rightarrow> real list \<Rightarrow> real" where
  "dot u v = sum_list (map2 (*) u v)"

definition portfolio_volatility :: "real list \<Rightarrow> real list list \<Rightarrow> npfloat" where
  "portfolio_volatility weights cov_matrix =
     np_mul (np_sqrt (dot weights (map (\<lambda>row. dot row weights) cov_matrix))) (Fin (sqrt 252))"

definition negative_sharpe_ratio ::
  "real list \<Rightarrow> dataframe \<Rightarrow> real list list \<Rightarrow> real \<Rightarrow> npfloat" where
  "negative_sharpe_ratio weights returns cov_matrix risk_free_rate =
     (let p_return = portfolio_return weights returns;
          p_volatility = portfolio_volatility weights cov_matrix
      in np_divide (np_neg (np_add p_return (Fin (- risk_free_rate)))) p_volatility)"

text \<open>
  \<^verbatim>\<open>scipy.optimize.minimize\<close> is library code and is a parameter: it takes the
  objective, the initial guess, the box bounds and the function of the equality
  constraint, and returns an \<^verbatim>\<open>OptimizeResult\<close>, of which \<open>opt_x\<close> is the field \<^verbatim>\<open>x\<close>
  and \<open>opt_success\<close> the field \<^verbatim>\<open>success\<close>.
\<close>

record optimize_result =
  opt_x :: "real list"
  opt_success :: bool

type_synonym minimizer =
  "(real list \<Rightarrow> npfloat) \<Rightarrow> real list \<Rightarrow> (real \<times> real) list \<Rightarrow> (real list \<Rightarrow> real)
     \<Rightarrow> optimize_result"

text \<open>
  Lines 194-200: the local variable \<^verbatim>\<open>result\<close> of \<^verbatim>\<open>maximize_sharpe_ratio\<close>. The
  expression \<^verbatim>\<open>1. / num_stocks\<close> raises when there is no column.
\<close>

definition sharpe_result ::
  "minimizer \<Rightarrow> dataframe \<Rightarrow> real list list \<Rightarrow> real \<Rightarrow> py_error + optimize_result" where
  "sharpe_result minimize returns cov_matrix risk_free_rate =
     (let num_stocks = length (columns returns)
      in if num_stocks = 0 then Inl ZeroDivisionError
         else
           let initial_guess = replicate num_stocks (1 / real num_stocks);
               bounds = replicate num_stocks (0, 1);
               constraint = (\<lambda>weights. sum_list weights - 1)
           in Inr (minimize (\<lambda>weights. negative_sharpe_ratio weights returns cov_matrix risk_free_rate)
                     initial_guess bounds constraint))"

text \<open>Line 201: \<^verbatim>\<open>return result.x\<close>.\<close>

definition maximize_sharpe_ratio ::
  "minimizer \<Rightarrow> dataframe \<Rightarrow> real list list \<Rightarrow> real \<Rightarrow> py_error + real list" where
  "maximize_sharpe_ratio minimize returns cov_matrix risk_free_rate =
     (case sharpe_result minimize returns cov_matrix risk_free_rate of
        Inl e \<Rightarrow> Inl e
      | Inr result \<Rightarrow> Inr (opt_x result))"

text \<open>Lines 204-212: the local variable \<^verbatim>\<open>result\<close> of \<^verbatim>\<open>global_minimum_variance\<close>.\<close>

definition variance_result :: "minimizer \<Rightarrow> real list list \<Rightarrow> py_error + optimize_result" where
  "variance_result minimize cov_matrix =
     (let num_stocks = length cov_matrix
      in if num_stocks = 0 then Inl ZeroDivisionError
         else
           let initial_guess = replicate num_stocks (1 / real num_stocks);
               bounds = replicate num_stocks (0, 1);
               constraint = (\<lambda>weights. sum_list weights - 1)
           in Inr (minimize (\<lambda>weights. portfolio_volatility weights cov_matrix)
                     initial_guess bounds constraint))"

text \<open>Line 213: \<^verbatim>\<open>return result.x\<close>.\<close>

definition global_minimum_variance :: "minimizer \<Rightarrow> real list list \<Rightarrow> py_error + real list" where
  "global_minimum_variance minimize cov_matrix =
     (case variance_result minimize cov_matrix of
        Inl e \<Rightarrow> Inl e
      | Inr result \<Rightarrow> Inr (opt_x result))"


text \<open>
  A solver run for the examples, which ends without convergence (for instance at the
  iteration limit): it reports failure and leaves an iterate that has drifted off the
  constraint.
\<close>

definition stalled_solver :: minimizer where
  "stalled_solver objective x0 bounds constraint =
     \<lparr>opt_x = map (\<lambda>v. v + 1 / 5) x0, opt_success = False\<rparr>"

text \<open>
  A run that the solver reports as successful although its result misses the equality
  constraint by 7.5e-6.
\<close>

definition loose_solver :: minimizer where
  "loose_solver objective x0 bounds constraint =
     \<lparr>opt_x = x0[0 := x0 ! 0 + 75 / 10 ^ 7], opt_success = True\<rparr>"

definition two_assets :: dataframe where
  "two_assets = \<lparr>columns = [''AAA'', ''BBB''], rows = [[1, 1], [1, 1]]\<rparr>"

definition two_assets_cov :: "real list list" where
  "two_assets_cov = [[1, 0], [0, 1]]"


section \<open>Monte Carlo simulation\<close>

text \<open>
  \<^verbatim>\<open>np.random.normal\<close> draws from numpy's process-wide generator, which the program
  never seeds. The state of that generator is modelled by the sequence of standard normal
  deviates it will deliver next; a call for an \<open>n \<times> t\<close> array consumes \<open>n * t\<close> of them,
  row by row, and scales each one (\<open>loc + scale * z\<close>).
\<close>

type_synonym rng = "nat \<Rightarrow> real"

definition random_normal :: "rng \<Rightarrow> real \<Rightarrow> real \<Rightarrow> nat \<Rightarrow> nat \<Rightarrow> real list list \<times> rng" where
  "random_normal g loc scale n t =
     (map (\<lambda>i. map (\<lambda>j. loc + scale * g (i * t + j)) [0..<t]) [0..<n],
      (\<lambda>k. g (k + n * t)))"

fun cumsum_from :: "real \<Rightarrow> real list \<Rightarrow> real list" where
  "cumsum_from acc [] = []"
| "cumsum_from acc (v # vs) = (acc + v) # cumsum_from (acc + v) vs"

definition cumsum :: "real list \<Rightarrow> real list" where
  "cumsum vs = cumsum_from 0 vs"

text \<open>
  What the function shows: either the warning that two stocks are needed, or the two
  metrics and the histogram of the last column of the simulated paths.
\<close>

datatype mc_view =
  Need_two_stocks
| Simulated (sim_var_95: npfloat) (sim_cvar_95: npfloat) (sim_terminal: "npfloat list")

text \<open>
  \<^verbatim>\<open>perform_monte_carlo_var\<close>. The number of iterations is the value of the slider, which
  the widget keeps between 1000 and 100000. The function returns what it shows together
  with the generator as it leaves it.
  \<^item> With no row in the table the simulated array has no column and
    \<^verbatim>\<open>simulated_returns[:, -1]\<close> raises.
  \<^item> With no column in the table the two estimates are \<^verbatim>\<open>nan\<close> and so is every value
    derived from them.
  \<^item> Line 245 indexes the two-dimensional array by the row mask, so \<^verbatim>\<open>.mean()\<close>
    averages every entry of the selected rows.
\<close>

definition perform_monte_carlo_var ::
  "rng \<Rightarrow> dataframe \<Rightarrow> holdings \<Rightarrow> nat \<Rightarrow> (py_error + mc_view) \<times> rng" where
  "perform_monte_carlo_var g returns portfolio iterations =
     (if length portfolio < 2 then (Inr Need_two_stocks, g)
      else if rows returns = [] then (Inl IndexError, g)
      else if columns returns = [] then
        (Inr (Simulated NaN NaN (replicate iterations NaN)),
         snd (random_normal g 0 0 iterations (length (rows returns))))
      else
        let p_return = map avg (rows returns);
            p_volatility = map np_std (rows returns);
            (simulations, g') =
               random_normal g (avg p_return) (avg p_volatility) iterations (length (rows returns));
            simulated_returns = map (\<lambda>path. map exp (cumsum path)) simulations;
            terminal = map last simulated_returns;
            var = percentile terminal 5;
            cvar = np_mean (concat (filter (\<lambda>path. last path \<le> var) simulated_returns))
        in (Inr (Simulated (Fin var) cvar (map Fin terminal)), g'))"

text \<open>The tail mean of the last column alone.\<close>

definition terminal_tail_mean :: "real list \<Rightarrow> npfloat" where
  "terminal_tail_mean terminal = np_mean (filter (\<lambda>v. v \<le> percentile terminal 5) terminal)"

text \<open>Example generators: every deviate 0, and 1000 deviates 0 followed by deviates 1.\<close>

definition zero_rng :: rng where
  "zero_rng k = 0"

definition step_rng :: rng where
  "step_rng k = (if k < 1000 then 0 else 1)"

definition two_holdings :: holdings where
  "two_holdings = [(''AAA'', 1), (''BBB'', 1)]"

definition one_day :: dataframe where
  "one_day = \<lparr>columns = [''AAA'', ''BBB''], rows = [[1, - 1]]\<rparr>"

section \<open>Price lookup and the interface\<close>

text \<open>
  What the program writes to the page, as far as the claims need it: the title, an error
  box holding a fixed text followed by the exception, an information box, and anything
  else.
\<close>

datatype ui = St_title | St_error string py_error | St_info string | St_other string

text \<open>
  The price source (\<^verbatim>\<open>yfinance\<close>) is a parameter. For a ticker it either raises or
  delivers \<^verbatim>\<open>info.get('regularMarketPrice')\<close> (possibly \<^verbatim>\<open>None\<close>) and the closing
  prices of the last day, whose lookup can raise as well.
\<close>

record ticker_data =
  regularMarketPrice :: "real option"
  close_1d :: "py_error + real list"

text \<open>
  \<^verbatim>\<open>get_stock_value\<close>: the value and what it wrote to the page. \<^verbatim>\<open>.iloc[-1]\<close> raises on
  an empty series. Every exception ends in the handler of lines 19-21.
\<close>

definition fetch_price :: "(string \<Rightarrow> py_error + ticker_data) \<Rightarrow> string \<Rightarrow> py_error + real" where
  "fetch_price yf ticker =
     (case yf ticker of
        Inl e \<Rightarrow> Inl e
      | Inr stock \<Rightarrow>
          (case regularMarketPrice stock of
             Some current_price \<Rightarrow> Inr current_price
           | None \<Rightarrow>
               (case close_1d stock of
                  Inl e \<Rightarrow> Inl e
                | Inr closes \<Rightarrow> if closes = [] then Inl IndexError else Inr (last closes))))"

definition get_stock_value ::
  "(string \<Rightarrow> py_error + ticker_data) \<Rightarrow> string \<Rightarrow> real \<Rightarrow> real \<times> ui list" where
  "get_stock_value yf ticker quantity =
     (case fetch_price yf ticker of
        Inr current_price \<Rightarrow> (current_price * quantity, [])
      | Inl e \<Rightarrow> (0, [St_error (''Error fetching stock value for '' @ ticker @ '': '') e]))"


text \<open>
  \<^verbatim>\<open>portfolio_management_interface\<close>. The loader of the user's data and two parts of the
  page are parameters:
  \<^item> \<open>front\<close> is lines 263-264 (showing the portfolio and the form that adds a stock):
    it delivers what it wrote and either the exception it ended with or the portfolio as
    the form left it;
  \<^item> \<open>analysis\<close> is lines 273-304, the body of the inner \<^verbatim>\<open>try\<close> (download of the
    prices, returns, weights and the selected analysis, which holds every core
    computation): it delivers what it wrote and the exception it ended with, if any.
    Lines 268-270 before it list the tickers and compute two dates.

  The handler of lines 305-306 catches every exception of the analysis and writes it to
  the page in an error box. The handler of lines 310-311 catches every other exception
  and does nothing. The result is what is on the page when the function returns; it always
  returns normally.
\<close>

definition portfolio_management_interface ::
  "(nat \<Rightarrow> py_error + holdings option) \<Rightarrow>
   (holdings \<Rightarrow> ui list \<times> (py_error + holdings)) \<Rightarrow>
   (holdings \<Rightarrow> ui list \<times> py_error option) \<Rightarrow> nat \<Rightarrow> ui list" where
  "portfolio_management_interface load_user_data front analysis user_id =
     St_title #
     (case load_user_data user_id of
        Inl e \<Rightarrow> []
      | Inr user_data \<Rightarrow>
          (case front (case user_data of None \<Rightarrow> [] | Some p \<Rightarrow> p) of
             (shown, Inl e) \<Rightarrow> shown
           | (shown, Inr portfolio) \<Rightarrow>
               if portfolio \<noteq> [] then
                 (case analysis portfolio of
                    (written, None) \<Rightarrow> shown @ written
                  | (written, Some e) \<Rightarrow>
                      shown @ written @
                      [St_error ''An error occurred while processing your portfolio: '' e])
               else
                 shown @ [St_info ''Your portfolio is empty. Add some stocks to get started!'']))"

text \<open>Example price sources: one that cannot be reached, one quoting a price of 0.\<close>

definition offline :: "string \<Rightarrow> py_error + ticker_data" where
  "offline ticker = Inl (Exception ''connection failed'')"

definition worthless :: "string \<Rightarrow> py_error + ticker_data" where
  "worthless ticker = Inr \<lparr>regularMarketPrice = Some 0, close_1d = Inr []\<rparr>"


text \<open>
  Examples for the interface: a store that fails and one that holds two stocks; a front
  part that shows the composition chart, and one that fails after it; an analysis that
  fails on misaligned shapes after writing the navigation.
\<close>

definition lost_store :: "nat \<Rightarrow> py_error + holdings option" where
  "lost_store user_id = Inl (Exception ''no such user'')"

definition kept_store :: "nat \<Rightarrow> py_error + holdings option" where
  "kept_store user_id = Inr (Some two_holdings)"

definition plain_front :: "holdings \<Rightarrow> ui list \<times> (py_error + holdings)" where
  "plain_front portfolio = ([St_other ''Portfolio Composition''], Inr portfolio)"

definition crashing_front :: "holdings \<Rightarrow> ui list \<times> (py_error + holdings)" where
  "crashing_front portfolio = ([St_other ''Portfolio Composition''], Inl ValueError)"

definition misaligned_analysis :: "holdings \<Rightarrow> ui list \<times> py_error option" where
  "misaligned_analysis portfolio = ([St_other ''Navigation''], Some ValueError)"

definition one_asset :: dataframe where
  "one_asset = \<lparr>columns = [''AAA''], rows = [[1 / 2], [- 1 / 4]]\<rparr>"

section \<open>Auxiliary facts\<close>

lemma avg_single: "avg [a] = a"
  by (simp add: avg_def)

lemma avg_pair: "avg [a, b] = (a + b) / 2"
  by (simp add: avg_def)



lemma sum_list_concat_replicate:
  "sum_list (concat (replicate n vs)) = real n * sum_list (vs :: real list)"
  by (induction n) (simp_all add: algebra_simps)

lemma length_concat_replicate: "length (concat (replicate n vs)) = n * length vs"
  by (induction n) simp_all

lemma avg_concat_replicate: "0 < n \<Longrightarrow> avg (concat (replicate n vs)) = avg vs"
  by (simp add: avg_def sum_list_concat_replicate length_concat_replicate)

subsection \<open>The percentile lies in the data\<close>

lemma percentile_index_le:
  assumes "0 \<le> q" and "q \<le> 100"
  shows "nat \<lfloor>q / 100 * real (n - 1)\<rfloor> \<le> n - 1"
proof -
  have "q / 100 \<le> 1"
    using assms(2) by simp
  then have "q / 100 * real (n - 1) \<le> 1 * real (n - 1)"
    by (intro mult_right_mono) simp_all
  then have "\<lfloor>q / 100 * real (n - 1)\<rfloor> \<le> int (n - 1)"
    by (simp add: floor_le_iff)
  then show ?thesis by simp
qed



lemma percentile_replicate:
  assumes "0 < n" and "0 \<le> q" and "q \<le> 100"
  shows "percentile (replicate n c) q = c"
proof -
  have s: "sort (replicate n c) = replicate n c"
    by (simp add: sort_key_id_if_sorted sorted_replicate)
  have "nat \<lfloor>q / 100 * real (n - 1)\<rfloor> \<le> n - 1"
    using assms(2,3) by (rule percentile_index_le)
  then have lo: "nat \<lfloor>q / 100 * real (n - 1)\<rfloor> < n"
    using assms(1) by simp
  have hi: "min (nat \<lfloor>q / 100 * real (n - 1)\<rfloor> + 1) (n - 1) < n"
    using assms(1) by simp
  show ?thesis
    unfolding percentile_def Let_def s length_replicate using lo hi by simp
qed


subsection \<open>Series of numbers\<close>







subsection \<open>Evaluating the rounding\<close>

lemma binade_eq:
  assumes "2 powi e \<le> \<bar>x\<bar>" and "\<bar>x\<bar> < 2 powi (e + 1)" and "- 1022 \<le> e"
  shows "binade x = e"
proof -
  have pos: "0 < \<bar>x\<bar>"
  proof -
    have "(0::real) < 2 powi e"
      by simp
    then show ?thesis
      using assms(1) by linarith
  qed
  have "2 powr (of_int e) \<le> \<bar>x\<bar>"
    using assms(1) by (simp add: powr_real_of_int')
  then have low: "of_int e \<le> log 2 \<bar>x\<bar>"
    using pos by (simp add: le_log_iff)
  have "\<bar>x\<bar> < 2 powr (of_int e + 1)"
    using assms(2) powr_real_of_int' [of 2 "e + 1"] by simp
  then have high: "log 2 \<bar>x\<bar> < of_int e + 1"
    using pos by (simp add: log_less_iff)
  from low high have "\<lfloor>log 2 \<bar>x\<bar>\<rfloor> = e"
    by (simp add: floor_eq_iff)
  then show ?thesis
    using assms(3) by (simp add: binade_def)
qed

lemma double_1: "double 1 = Fin 1"
  by (simp add: double_def Let_def binade_eq [of 0] round_half_even_def)

lemma double_2: "double 2 = Fin 2"
  by (simp add: double_def Let_def binade_eq [of 1] round_half_even_def)

lemma double_3: "double 3 = Fin 3"
  by (simp add: double_def Let_def binade_eq [of 1] round_half_even_def)

lemma double_tenth: "double (1 / 10) = Fin tenth"
  by (simp add: tenth_def double_def Let_def binade_eq [of "- 4"] round_half_even_def)

lemma pairwise_sum_short: "length a < 8 \<Longrightarrow> pairwise_sum a = foldl d_add (Fin 0) a"
  by (subst pairwise_sum.simps) simp


lemma series_mean_ones: "series_mean [Fin 1, Fin 1, Fin 1] = Fin 1"
  by (simp add: series_mean_def pairwise_sum_short double_1 double_2 double_3)


section \<open>Claims about the metrics\<close>

text \<open>
  Claim C1. For every return series with fewer than two entries,
  \<^verbatim>\<open>calculate_portfolio_metrics\<close> returns normally (it does not raise), and each of the
  nine fields of the result is the marker \<^verbatim>\<open>nan\<close>; no field is a number, so none is 0.
\<close>

theorem short_series_all_undefined:
  assumes "length returns < 2"
  shows "calculate_portfolio_metrics stats returns =
           Inr \<lparr>return_val = NaN, volatility = NaN, sharpe_ratio = NaN, skewness = NaN,
                kurtosis = NaN, shapiro_p_value = NaN, cumulative_return = NaN,
                var_95 = NaN, cvar_95 = NaN\<rparr>"
  using assms by (simp add: calculate_portfolio_metrics_def)

text \<open>Claim C1, at the one-entry series \<open>[1/2]\<close>.\<close>

theorem short_series_all_undefined_witness:
  "length [Fin (1 / 2)] < 2 \<and>
   calculate_portfolio_metrics flat_stats [Fin (1 / 2)] =
     Inr \<lparr>return_val = NaN, volatility = NaN, sharpe_ratio = NaN, skewness = NaN,
          kurtosis = NaN, shapiro_p_value = NaN, cumulative_return = NaN,
          var_95 = NaN, cvar_95 = NaN\<rparr>"
  using short_series_all_undefined [of "[Fin (1 / 2)]" flat_stats] by simp

text \<open>
  Claim C5, at the series \<open>[1, 1, 1]\<close> (a price that doubles on three days running): the
  annualised volatility is 0, and the Sharpe ratio that the function returns is the
  quotient by that 0, which is \<^verbatim>\<open>inf\<close> and not the marker \<^verbatim>\<open>nan\<close>.
\<close>

theorem sharpe_ratio_at_zero_volatility:
  "map_sum id volatility (calculate_portfolio_metrics flat_stats [Fin 1, Fin 1, Fin 1]) =
     Inr (Fin 0) \<and>
   map_sum id return_val (calculate_portfolio_metrics flat_stats [Fin 1, Fin 1, Fin 1]) =
     Inr (Fin 252) \<and>
   map_sum id sharpe_ratio (calculate_portfolio_metrics flat_stats [Fin 1, Fin 1, Fin 1]) =
     Inr PInf"
proof -
  have "series_std [Fin 1, Fin 1, Fin 1] = Fin 0"
    by (simp add: series_std_def series_mean_ones np_sum_def np_div_def np_sqrt_def)
  then show ?thesis
    by (simp add: calculate_portfolio_metrics_def flat_stats_def series_mean_ones np_div_def
        Let_def)
qed




section \<open>Claims about the simulation\<close>

subsection \<open>Runs in which every deviate drawn is the same\<close>

lemma draws_agree:
  assumes "\<forall>k < n * t. g1 k = g2 k"
  shows "fst (random_normal g1 loc scale n t) = fst (random_normal g2 loc scale n t)"
proof -
  have "g1 (i * t + j) = g2 (i * t + j)" if "i < n" and "j < t" for i j
  proof -
    have "i * t + j < i * t + t"
      using that by simp
    also have "\<dots> = Suc i * t"
      by simp
    also have "\<dots> \<le> n * t"
      using \<open>i < n\<close> by (intro mult_le_mono1) simp
    finally show ?thesis
      using assms by blast
  qed
  then show ?thesis
    by (simp add: random_normal_def)
qed

lemma constant_draws:
  assumes "\<forall>k < n * t. g k = c"
  shows "fst (random_normal g loc scale n t) = replicate n (replicate t (loc + scale * c))"
proof -
  have "fst (random_normal g loc scale n t) = fst (random_normal (\<lambda>_. c) loc scale n t)"
    using assms by (intro draws_agree) simp
  also have "\<dots> = replicate n (replicate t (loc + scale * c))"
    by (simp add: random_normal_def map_replicate_const)
  finally show ?thesis .
qed

lemma simulation_of_constant_draws:
  assumes "2 \<le> length portfolio" and "rows R \<noteq> []" and "columns R \<noteq> []" and "0 < n"
    and "\<forall>k < n * length (rows R). g k = c"
    and "path = map exp (cumsum (replicate (length (rows R))
                  (avg (map avg (rows R)) + avg (map np_std (rows R)) * c)))"
  shows "fst (perform_monte_carlo_var g R portfolio n) =
           Inr (Simulated (Fin (last path)) (Fin (avg path)) (replicate n (Fin (last path))))"
proof -
  let ?mu = "avg (map avg (rows R))"
  let ?sigma = "avg (map np_std (rows R))"
  let ?t = "length (rows R)"
  obtain sims g' where rn: "random_normal g ?mu ?sigma n ?t = (sims, g')"
    by (cases "random_normal g ?mu ?sigma n ?t")
  have "fst (random_normal g ?mu ?sigma n ?t) = replicate n (replicate ?t (?mu + ?sigma * c))"
    using assms(5) by (rule constant_draws)
  then have sims: "sims = replicate n (replicate ?t (?mu + ?sigma * c))"
    using rn by simp
  have paths: "map (\<lambda>p. map exp (cumsum p)) sims = replicate n path"
    by (simp add: sims assms(6))
  have var: "percentile (replicate n (last path)) 5 = last path"
    using assms(4) by (simp add: percentile_replicate)
  have "cumsum (replicate ?t (?mu + ?sigma * c)) \<noteq> []"
    using assms(2) by (cases "rows R") (simp_all add: cumsum_def)
  then have "path \<noteq> []"
    by (simp add: assms(6))
  then have "concat (replicate n path) \<noteq> []"
    using assms(4) by (cases n) simp_all
  then have cvar: "np_mean (concat (replicate n path)) = Fin (avg path)"
    using assms(4) by (simp add: np_mean_def avg_concat_replicate)
  have enough: "\<not> length portfolio < 2"
    using assms(1) by simp
  show ?thesis
    unfolding perform_monte_carlo_var_def
    by (simp add: enough assms(2,3) rn Let_def paths var cvar del: map_map)
qed

lemma generator_after_simulation:
  assumes "2 \<le> length portfolio" and "rows R \<noteq> []" and "columns R \<noteq> []"
  shows "snd (perform_monte_carlo_var g R portfolio n) = (\<lambda>k. g (k + n * length (rows R)))"
  using assms by (simp add: perform_monte_carlo_var_def random_normal_def Let_def)

lemma np_std_opposite: "np_std [1, - 1] = 1"
  by (simp add: np_std_def avg_def)

lemma one_day_first_run:
  "fst (perform_monte_carlo_var step_rng one_day two_holdings 1000) =
     Inr (Simulated (Fin 1) (Fin 1) (replicate 1000 (Fin 1)))"
proof -
  have path: "[1] = map exp (cumsum (replicate (length (rows one_day))
                  (avg (map avg (rows one_day)) + avg (map np_std (rows one_day)) * 0)))"
    by (simp add: one_day_def avg_pair avg_single np_std_opposite cumsum_def)
  have "fst (perform_monte_carlo_var step_rng one_day two_holdings 1000) =
          Inr (Simulated (Fin (last [1])) (Fin (avg [1])) (replicate 1000 (Fin (last [1]))))"
    by (rule simulation_of_constant_draws [where c = 0, OF _ _ _ _ _ path])
       (simp_all add: two_holdings_def one_day_def step_rng_def)
  then show ?thesis
    by (simp add: avg_single)
qed

lemma one_day_second_run:
  "fst (perform_monte_carlo_var
          (snd (perform_monte_carlo_var step_rng one_day two_holdings 1000))
          one_day two_holdings 1000) =
     Inr (Simulated (Fin (exp 1)) (Fin (exp 1)) (replicate 1000 (Fin (exp 1))))"
proof -
  have after: "snd (perform_monte_carlo_var step_rng one_day two_holdings 1000) =
                 (\<lambda>k. step_rng (k + 1000))"
    by (subst generator_after_simulation) (simp_all add: two_holdings_def one_day_def)
  have path: "[exp 1] = map exp (cumsum (replicate (length (rows one_day))
                  (avg (map avg (rows one_day)) + avg (map np_std (rows one_day)) * 1)))"
    by (simp add: one_day_def avg_pair avg_single np_std_opposite cumsum_def)
  have "fst (perform_monte_carlo_var (\<lambda>k. step_rng (k + 1000)) one_day two_holdings 1000) =
          Inr (Simulated (Fin (last [exp 1])) (Fin (avg [exp 1]))
                 (replicate 1000 (Fin (last [exp 1]))))"
    by (rule simulation_of_constant_draws [where c = 1, OF _ _ _ _ _ path])
       (simp_all add: two_holdings_def one_day_def step_rng_def)
  then show ?thesis
    by (simp add: avg_single after)
qed

subsection \<open>The claims\<close>

text \<open>
  Claim C2, at a table of two stocks that both double on two days running, 1000
  iterations: both estimates of the spread are 0, so every path is \<open>[exp 1, exp 2]\<close>
  whatever is drawn. Every last value is \<open>exp 2\<close>, which is the simulated \<open>var_95\<close>, and
  the mean of the last values at or below it is \<open>exp 2\<close>. The function shows
  \<open>(exp 1 + exp 2) / 2\<close> as \<open>cvar_95\<close>: the mean over both steps of the selected paths.
\<close>

theorem simulated_cvar_averages_whole_paths:
  "fst (perform_monte_carlo_var zero_rng two_assets two_holdings 1000) =
     Inr (Simulated (Fin (exp 2)) (Fin ((exp 1 + exp 2) / 2)) (replicate 1000 (Fin (exp 2)))) \<and>
   terminal_tail_mean (replicate 1000 (exp 2)) = Fin (exp 2) \<and>
   (exp 1 + exp 2) / 2 \<noteq> (exp 2 :: real)"
proof -
  have std: "np_std [1, 1] = 0"
    by (simp add: np_std_def avg_def)
  have path: "[exp 1, exp 2] = map exp (cumsum (replicate (length (rows two_assets))
                  (avg (map avg (rows two_assets)) + avg (map np_std (rows two_assets)) * 0)))"
    by (simp add: two_assets_def avg_pair std cumsum_def numeral_2_eq_2)
  have shown: "fst (perform_monte_carlo_var zero_rng two_assets two_holdings 1000) =
                 Inr (Simulated (Fin (last [exp 1, exp 2])) (Fin (avg [exp 1, exp 2]))
                        (replicate 1000 (Fin (last [exp 1, exp 2]))))"
    by (rule simulation_of_constant_draws [where c = 0, OF _ _ _ _ _ path])
       (simp_all add: two_holdings_def two_assets_def zero_rng_def)
  have tail: "terminal_tail_mean (replicate 1000 (exp 2)) = Fin (exp 2)"
    by (simp add: terminal_tail_mean_def percentile_replicate np_mean_def avg_def
        sum_list_replicate)
  have "exp (1::real) < exp 2"
    by simp
  then have "(exp 1 + exp 2) / 2 \<noteq> (exp 2 :: real)"
    by simp
  with shown tail show ?thesis
    by (simp add: avg_pair)
qed

text \<open>
  Claim C9 as stated fails: the function has no seed among its arguments and draws from
  the process-wide generator, so two calls in a row with the same table, portfolio and
  number of iterations show different results. Here the generator delivers 1000 deviates
  0 and then deviates 1; the first call shows \<open>var_95 = 1\<close>, the second \<open>var_95 = exp 1\<close>.
\<close>

theorem repeated_simulation_differs:
  "fst (perform_monte_carlo_var step_rng one_day two_holdings 1000) \<noteq>
   fst (perform_monte_carlo_var
          (snd (perform_monte_carlo_var step_rng one_day two_holdings 1000))
          one_day two_holdings 1000)"
  by (simp add: one_day_first_run one_day_second_run)

text \<open>
  Claim C9, amended. The simulation takes no seed; what it shows is determined by its
  arguments together with the deviates that the process-wide generator delivers to it:
  two calls with the same arguments whose generators agree on the
  \<open>iterations * len(returns)\<close> deviates consumed show identical \<open>var_95\<close>, \<open>cvar_95\<close> and
  terminal values.
\<close>

theorem simulation_determined_by_draws:
  assumes "\<forall>k < iterations * length (rows returns). g1 k = g2 k"
  shows "fst (perform_monte_carlo_var g1 returns portfolio iterations) =
         fst (perform_monte_carlo_var g2 returns portfolio iterations)"
proof -
  have "fst (random_normal g1 loc scale iterations (length (rows returns))) =
        fst (random_normal g2 loc scale iterations (length (rows returns)))" for loc scale
    using assms by (rule draws_agree)
  then show ?thesis
    by (simp add: perform_monte_carlo_var_def Let_def split_beta)
qed

text \<open>Claim C9 amended, at two generators that agree on the first 1000 deviates only.\<close>

theorem simulation_determined_by_draws_witness:
  "fst (perform_monte_carlo_var zero_rng one_day two_holdings 1000) =
   fst (perform_monte_carlo_var step_rng one_day two_holdings 1000)"
  using simulation_determined_by_draws [of 1000 one_day zero_rng step_rng two_holdings]
  by (simp add: one_day_def zero_rng_def step_rng_def)

text \<open>
  Claim C10. When the portfolio holds fewer than two stocks,
  \<^verbatim>\<open>perform_monte_carlo_var\<close> shows the warning and returns: nothing is drawn from the
  generator and no distribution or tail statistic is computed.
\<close>

theorem simulation_needs_two_stocks:
  assumes "length portfolio < 2"
  shows "perform_monte_carlo_var g returns portfolio iterations = (Inr Need_two_stocks, g)"
  using assms by (simp add: perform_monte_carlo_var_def)

text \<open>Claim C10, at a portfolio of one stock.\<close>

theorem simulation_needs_two_stocks_witness:
  "length [(''AAA'', 5 :: 64 word)] < 2 \<and>
   perform_monte_carlo_var zero_rng one_asset [(''AAA'', 5)] 1000 = (Inr Need_two_stocks, zero_rng)"
  using simulation_needs_two_stocks [of "[(''AAA'', 5)]" zero_rng one_asset 1000] by simp

section \<open>Claims about the optimiser\<close>

lemma stalled_sharpe_result:
  "sharpe_result stalled_solver two_assets two_assets_cov (1 / 50) =
     Inr \<lparr>opt_x = [7 / 10, 7 / 10], opt_success = False\<rparr>"
  by (simp add: sharpe_result_def stalled_solver_def two_assets_def Let_def numeral_2_eq_2)

lemma stalled_variance_result:
  "variance_result stalled_solver two_assets_cov =
     Inr \<lparr>opt_x = [7 / 10, 7 / 10], opt_success = False\<rparr>"
  by (simp add: variance_result_def stalled_solver_def two_assets_cov_def Let_def numeral_2_eq_2)

text \<open>
  Claim C3 as stated fails: neither function looks at the solver's \<^verbatim>\<open>success\<close> field.
  For a solver run that ends without convergence, \<^verbatim>\<open>maximize_sharpe_ratio\<close> returns the
  iterate that the solver left, as an ordinary weight vector, and raises nothing.
\<close>

theorem unconverged_vector_returned:
  "sharpe_result stalled_solver two_assets two_assets_cov (1 / 50) =
     Inr \<lparr>opt_x = [7 / 10, 7 / 10], opt_success = False\<rparr> \<and>
   maximize_sharpe_ratio stalled_solver two_assets two_assets_cov (1 / 50) =
     Inr [7 / 10, 7 / 10]"
  by (simp add: maximize_sharpe_ratio_def stalled_sharpe_result)

text \<open>
  Claim C3, amended. For every optimisation request (maximum Sharpe ratio or minimum
  variance), the optimiser returns the solver's result vector whatever the solver reports
  about convergence; it never raises a convergence error.
\<close>

theorem solver_vector_returned_unchecked:
  "(sharpe_result minimize returns cov_matrix risk_free_rate = Inr result \<longrightarrow>
      maximize_sharpe_ratio minimize returns cov_matrix risk_free_rate = Inr (opt_x result)) \<and>
   (variance_result minimize cov_matrix = Inr result' \<longrightarrow>
      global_minimum_variance minimize cov_matrix = Inr (opt_x result'))"
  by (simp add: maximize_sharpe_ratio_def global_minimum_variance_def)

text \<open>Claim C3 amended, at the run without convergence, for both functions.\<close>

theorem solver_vector_returned_unchecked_witness:
  "sharpe_result stalled_solver two_assets two_assets_cov (1 / 50) =
     Inr \<lparr>opt_x = [7 / 10, 7 / 10], opt_success = False\<rparr> \<and>
   maximize_sharpe_ratio stalled_solver two_assets two_assets_cov (1 / 50) = Inr [7 / 10, 7 / 10] \<and>
   variance_result stalled_solver two_assets_cov =
     Inr \<lparr>opt_x = [7 / 10, 7 / 10], opt_success = False\<rparr> \<and>
   global_minimum_variance stalled_solver two_assets_cov = Inr [7 / 10, 7 / 10]"
  using solver_vector_returned_unchecked
          [where minimize = stalled_solver and returns = two_assets
             and cov_matrix = two_assets_cov and risk_free_rate = "1 / 50"
             and result = "\<lparr>opt_x = [7 / 10, 7 / 10], opt_success = False\<rparr>"
             and result' = "\<lparr>opt_x = [7 / 10, 7 / 10], opt_success = False\<rparr>"]
  by (simp add: stalled_variance_result stalled_sharpe_result)


lemma loose_sharpe_result:
  "sharpe_result loose_solver two_assets two_assets_cov (1 / 50) =
     Inr \<lparr>opt_x = [200003 / 400000, 1 / 2], opt_success = True\<rparr>"
  by (simp add: sharpe_result_def loose_solver_def two_assets_def Let_def numeral_2_eq_2)




section \<open>Claims about aggregation and error handling\<close>

text \<open>
  Claim C8. With the single weight 1, the aggregated returns are the table of the asset's
  returns, entry for entry; and the weight computed for a portfolio of one stock with a
  quantity other than 0 is that single weight 1.
\<close>

theorem single_asset_returns_unchanged:
  "portfolio_returns returns [Fin 1] = Inr (Frame (map (map Fin) (rows returns))) \<and>
   (quantity \<noteq> 0 \<longrightarrow> normalized_weights [(ticker, quantity)] = [Fin 1])"
  by (simp add: portfolio_returns_def normalized_weights_def np_div_def signed_eq_0_iff)

text \<open>Claim C8, at three shares of one stock with the returns 1/2 and -1/4.\<close>

theorem single_asset_returns_unchanged_witness:
  "(3 :: 64 word) \<noteq> 0 \<and>
   portfolio_returns one_asset (normalized_weights [(''AAA'', 3)]) =
     Inr (Frame [[Fin (1 / 2)], [Fin (- 1 / 4)]])"
  using single_asset_returns_unchanged [of one_asset 3 "''AAA''"]
  by (simp add: one_asset_def)

text \<open>
  Claim C4 as stated fails. When the price source cannot be reached,
  \<^verbatim>\<open>get_stock_value\<close> returns 0, the value it also returns for a stock quoted at 0; and
  when loading the user's data fails, \<^verbatim>\<open>portfolio_management_interface\<close> returns
  normally with the title alone on the page.
\<close>

theorem failure_turned_into_zero:
  "fst (get_stock_value offline ''AAA'' 10) = 0 \<and>
   fst (get_stock_value worthless ''AAA'' 10) = 0 \<and>
   portfolio_management_interface lost_store plain_front misaligned_analysis 7 = [St_title]"
  by (simp add: get_stock_value_def fetch_price_def offline_def worthless_def
      portfolio_management_interface_def lost_store_def)

text \<open>
  Claim C4, amended. Errors are caught, not handed to the caller as typed errors or tagged
  failures.
  \<^item> Every exception raised while the price is looked up makes \<^verbatim>\<open>get_stock_value\<close>
    write an error box with the exception and return 0.
  \<^item> In \<^verbatim>\<open>portfolio_management_interface\<close>, every exception raised by the download and
    the analysis (lines 273-304, which hold all the core computations) is caught by the
    inner handler and written to the page in an error box with the exception.
  \<^item> Every other exception inside \<^verbatim>\<open>portfolio_management_interface\<close> (loading the
    user's data, showing the portfolio, adding a stock) is discarded by the outer handler:
    the page holds what was written before, with no trace of the exception.

  In each case the function returns normally.
\<close>

theorem errors_caught_not_propagated:
  "(fetch_price yf ticker = Inl e \<longrightarrow>
      get_stock_value yf ticker quantity =
        (0, [St_error (''Error fetching stock value for '' @ ticker @ '': '') e])) \<and>
   (load_user_data user_id = Inl e1 \<longrightarrow>
      portfolio_management_interface load_user_data front analysis user_id = [St_title]) \<and>
   (load_user_data user_id = Inr (Some stored) \<and> front stored = (shown, Inl e2) \<longrightarrow>
      portfolio_management_interface load_user_data front analysis user_id =
        St_title # shown) \<and>
   (load_user_data user_id = Inr (Some stored) \<and> front stored = (shown, Inr portfolio) \<and>
    portfolio \<noteq> [] \<and> analysis portfolio = (written, Some e3) \<longrightarrow>
      portfolio_management_interface load_user_data front analysis user_id =
        St_title # shown @ written @
        [St_error ''An error occurred while processing your portfolio: '' e3])"
  by (simp add: get_stock_value_def portfolio_management_interface_def)

text \<open>
  Claim C4 amended, at a price source that cannot be reached, a store that fails, a
  stored portfolio whose chart fails, and a stored portfolio whose analysis fails on
  misaligned shapes.
\<close>

theorem errors_caught_not_propagated_witness:
  "get_stock_value offline ''AAA'' 10 =
     (0, [St_error ''Error fetching stock value for AAA: '' (Exception ''connection failed'')]) \<and>
   portfolio_management_interface lost_store plain_front misaligned_analysis 7 = [St_title] \<and>
   portfolio_management_interface kept_store crashing_front misaligned_analysis 7 =
     [St_title, St_other ''Portfolio Composition''] \<and>
   portfolio_management_interface kept_store plain_front misaligned_analysis 7 =
     [St_title, St_other ''Portfolio Composition'', St_other ''Navigation'',
      St_error ''An error occurred while processing your portfolio: '' ValueError]"
proof -
  have price: "fetch_price offline ''AAA'' = Inl (Exception ''connection failed'')"
    by (simp add: fetch_price_def offline_def)
  have lost: "lost_store 7 = Inl (Exception ''no such user'')"
    by (simp add: lost_store_def)
  have kept: "kept_store 7 = Inr (Some two_holdings)"
    by (simp add: kept_store_def)
  have crash: "crashing_front two_holdings = ([St_other ''Portfolio Composition''], Inl ValueError)"
    by (simp add: crashing_front_def)
  have plain: "plain_front two_holdings = ([St_other ''Portfolio Composition''], Inr two_holdings)"
    by (simp add: plain_front_def)
  have some: "two_holdings \<noteq> []"
    by (simp add: two_holdings_def)
  have fails: "misaligned_analysis two_holdings = ([St_other ''Navigation''], Some ValueError)"
    by (simp add: misaligned_analysis_def)
  from errors_caught_not_propagated
         [where yf = offline and ticker = "''AAA''" and e = "Exception ''connection failed''"
            and quantity = 10 and load_user_data = lost_store and user_id = 7
            and ?e1.0 = "Exception ''no such user''" and front = plain_front
            and analysis = misaligned_analysis]
  have first: "get_stock_value offline ''AAA'' 10 =
                 (0, [St_error ''Error fetching stock value for AAA: ''
                        (Exception ''connection failed'')])"
    and second: "portfolio_management_interface lost_store plain_front misaligned_analysis 7 =
                   [St_title]"
    using price lost by simp_all
  from errors_caught_not_propagated
         [where load_user_data = kept_store and user_id = 7 and stored = two_holdings
            and front = crashing_front and shown = "[St_other ''Portfolio Composition'']"
            and ?e2.0 = ValueError and analysis = misaligned_analysis]
  have third: "portfolio_management_interface kept_store crashing_front misaligned_analysis 7 =
                 [St_title, St_other ''Portfolio Composition'']"
    using kept crash by simp
  from errors_caught_not_propagated
         [where load_user_data = kept_store and user_id = 7 and stored = two_holdings
            and front = plain_front and shown = "[St_other ''Portfolio Composition'']"
            and portfolio = two_holdings and analysis = misaligned_analysis
            and written = "[St_other ''Navigation'']" and ?e3.0 = ValueError]
  have fourth: "portfolio_management_interface kept_store plain_front misaligned_analysis 7 =
                  [St_title, St_other ''Portfolio Composition'', St_other ''Navigation'',
                   St_error ''An error occurred while processing your portfolio: '' ValueError]"
    using kept plain some fails by simp
  from first second third fourth show ?thesis
    by simp
qed

end
